theory Spec2Isabelle
  imports Main
begin

section \<open>Python values used by the service\<close>

text \<open>
  A Python \<open>str\<close> is modelled as the list of its code points, each code point below 256
  being one \<^typ>\<open>char\<close>. The character classes below are those of CPython on that range:
  \<open>str.isspace\<close>, \<open>str.strip\<close> and the pattern class \<open>\s\<close> share one set of whitespace
  characters; \<open>str.isdigit\<close> accepts the ten decimal digits and the superscript digits
  (code points 178, 179 and 185), while \<open>int\<close> converts decimal digits only.
\<close>

text \<open>An exception is its class name and the text \<open>str(exception)\<close> gives.\<close>

datatype py_exn = Raised (exn_class: string) (exn_str: string)

definition AttributeError :: py_exn where
  "AttributeError = Raised ''AttributeError'' ''NoneType object has no attribute''"

definition TypeError :: py_exn where
  "TypeError = Raised ''TypeError'' ''NoneType object is not callable''"

definition ValueError :: py_exn where
  "ValueError = Raised ''ValueError'' ''invalid literal for int() with base 10''"

definition IndexError :: py_exn where
  "IndexError = Raised ''IndexError'' ''list index out of range''"


definition ValidationError :: py_exn where
  "ValidationError = Raised ''ValidationError'' ''Wrong command.''"

definition NL :: char where
  "NL = CHR 0x0A"

definition py_isspace :: "char \<Rightarrow> bool" where
  "py_isspace c =
     (let n = (of_char c :: nat)
      in (9 \<le> n \<and> n \<le> 13) \<or> (28 \<le> n \<and> n \<le> 32) \<or> n = 133 \<or> n = 160)"

definition is_decimal :: "char \<Rightarrow> bool" where
  "is_decimal c = (let n = (of_char c :: nat) in 48 \<le> n \<and> n \<le> 57)"

definition py_isdigit_char :: "char \<Rightarrow> bool" where
  "py_isdigit_char c =
     (let n = (of_char c :: nat) in (48 \<le> n \<and> n \<le> 57) \<or> n = 178 \<or> n = 179 \<or> n = 185)"

text \<open>\<open>s.isdigit()\<close>: every character is a digit and there is at least one.\<close>

definition py_isdigit :: "string \<Rightarrow> bool" where
  "py_isdigit s = (s \<noteq> [] \<and> list_all py_isdigit_char s)"

text \<open>\<open>s.replace(c, '')\<close> for a one-character \<open>c\<close>.\<close>

definition py_remove :: "char \<Rightarrow> string \<Rightarrow> string" where
  "py_remove c s = filter (\<lambda>x. x \<noteq> c) s"

definition py_rstrip :: "string \<Rightarrow> string" where
  "py_rstrip s = rev (dropWhile py_isspace (rev s))"

definition py_strip :: "string \<Rightarrow> string" where
  "py_strip s = py_rstrip (dropWhile py_isspace s)"

definition digit_value :: "char \<Rightarrow> int" where
  "digit_value c = int (of_char c) - 48"

definition decimal_value :: "string \<Rightarrow> int" where
  "decimal_value s = foldl (\<lambda>a c. 10 * a + digit_value c) 0 s"

text \<open>
  \<open>int(s)\<close> at the strings the parser passes to it, the ones \<open>isdigit\<close> accepts: a string
  of decimal digits is read in base ten, any other raises \<open>ValueError\<close>.
\<close>

definition py_int :: "string \<Rightarrow> py_exn + int" where
  "py_int s = (if s \<noteq> [] \<and> list_all is_decimal s then Inr (decimal_value s) else Inl ValueError)"

definition hex_digit :: "nat \<Rightarrow> char" where
  "hex_digit d = ''0123456789abcdef'' ! d"

fun hex_nat :: "nat \<Rightarrow> string" where
  "hex_nat n = (if n < 16 then [hex_digit n] else hex_nat (n div 16) @ [hex_digit (n mod 16)])"

definition py_hex :: "int \<Rightarrow> string" where
  "py_hex i = (if i < 0 then ''-0x'' @ hex_nat (nat (- i)) else ''0x'' @ hex_nat (nat i))"

fun split_on :: "char \<Rightarrow> string \<Rightarrow> string list" where
  "split_on d [] = [[]]"
| "split_on d (c # cs) =
     (if c = d then [] # split_on d cs
      else (case split_on d cs of [] \<Rightarrow> [[c]] | w # ws \<Rightarrow> (c # w) # ws))"

text \<open>\<open>str.capitalize\<close> on the ASCII identifiers it is applied to.\<close>

definition ascii_upper :: "char \<Rightarrow> char" where
  "ascii_upper c =
     (let n = (of_char c :: nat) in if 97 \<le> n \<and> n \<le> 122 then char_of (n - 32) else c)"

definition ascii_lower :: "char \<Rightarrow> char" where
  "ascii_lower c =
     (let n = (of_char c :: nat) in if 65 \<le> n \<and> n \<le> 90 then char_of (n + 32) else c)"

definition capitalize :: "string \<Rightarrow> string" where
  "capitalize w = (case w of [] \<Rightarrow> [] | c # cs \<Rightarrow> ascii_upper c # map ascii_lower cs)"

section \<open>The preference models (preferences\_model.py)\<close>

definition to_camel :: "string \<Rightarrow> string" where
  "to_camel parameter =
     (let to_list = map capitalize (split_on (CHR ''_'') parameter);
          to_list' = (if [] \<in> set to_list
                      then map (\<lambda>element. if element = [] then ''_'' else element) to_list
                      else to_list)
      in concat to_list')"

definition base_parameters_fields :: "string list" where
  "base_parameters_fields = [''cim_session'', ''throttle_limit'', ''as_job'']"

definition mp_preferences_own_fields :: "string list" where
  "mp_preferences_own_fields =
    [''exclusion_path'', ''exclusion_extension'', ''exclusion_process'',
     ''real_time_scan_direction'', ''quarantine_purge_items_after_delay'',
     ''remediation_schedule_day'', ''remediation_schedule_time'',
     ''reporting_additional_action_time_out'', ''reporting_critical_failure_time_out'',
     ''reporting_non_critical_time_out'', ''scan_avg_c_p_u_load_factor'',
     ''check_for_signatures_before_running_scan'', ''scan_purge_items_after_delay'',
     ''scan_only_if_idle_enabled'', ''scan_parameters'', ''scan_schedule_day'',
     ''scan_schedule_quick_scan_time'', ''scan_schedule_time'',
     ''signature_first_au_grace_period'', ''signature_au_grace_period'',
     ''signature_definition_update_file_shares_sources'',
     ''signature_disable_update_on_startup_without_engine'', ''signature_fallback_order'',
     ''signature_schedule_day'', ''signature_schedule_time'',
     ''signature_update_catchup_interval'', ''signature_update_interval'',
     ''m_a_p_s_reporting'', ''submit_samples_consent'', ''disable_auto_exclusions'',
     ''disable_privacy_mode'', ''randomize_schedule_task_times'',
     ''disable_behavior_monitoring'', ''disable_i_o_a_v_protection'',
     ''disable_realtime_monitoring'', ''disable_script_scanning'',
     ''disable_archive_scanning'', ''disable_catchup_full_scan'',
     ''disable_catchup_quick_scan'', ''disable_cpu_throttle_on_idle_scans'',
     ''disable_email_scanning'', ''disable_removable_drive_scanning'',
     ''disable_restore_point'', ''disable_scanning_mapped_network_drives_for_full_scan'',
     ''disable_scanning_network_files'', ''u_i_lockdown'',
     ''threat_i_d_default_action__ids'', ''threat_i_d_default_action__actions'',
     ''unknown_threat_default_action'', ''low_threat_default_action'',
     ''moderate_threat_default_action'', ''high_threat_default_action'',
     ''severe_threat_default_action'', ''disable_block_at_first_seen'',
     ''p_u_a_protection'', ''throttle_limit'', ''definition_updates_channel'',
     ''engine_updates_channel'', ''platform_updates_channel'']"

text \<open>
  The fields of a model class: the inherited ones first, then its own; a field declared
  again (\<open>throttle_limit\<close>) keeps its inherited place.
\<close>

definition model_fields :: "string list \<Rightarrow> string list \<Rightarrow> string list" where
  "model_fields inherited own = inherited @ filter (\<lambda>f. f \<notin> set inherited) own"

text \<open>
  \<open>MpPreferencesModel.schema()['properties'].keys()\<close>: the fields under their aliases,
  which \<open>alias_generator = to_camel\<close> produces.
\<close>

definition mp_preferences_properties :: "string list" where
  "mp_preferences_properties =
     map to_camel (model_fields base_parameters_fields mp_preferences_own_fields)"

definition COMMANDS_IN_USE :: "string list" where
  "COMMANDS_IN_USE =
     [''Set-MpPreference'', ''Start-MpScan'', ''Update-MpSignature'', ''Get-MpPreference'',
      ''Get-MpComputerStatus'']"

section \<open>The output parser (resolver.py)\<close>

definition get_mp_prefs_list :: "string list" where
  "get_mp_prefs_list = mp_preferences_properties"

definition get_status_pref_list :: "string list" where
  "get_status_pref_list =
     [''AntivirusSignatureLastUpdated'', ''AntivirusSignatureVersion'', ''AntivirusEnabled'']"

definition get_prefs_list :: "string \<rightharpoonup> string list" where
  "get_prefs_list =
     [''Get-MpPreference'' \<mapsto> get_mp_prefs_list,
      ''Get-MpComputerStatus'' \<mapsto> get_status_pref_list]"

text \<open>
  The pattern \<open>{name}\s*\:\s(.+)\n\<close> tried at the start of \<open>s\<close>; the result is group 1.
  The field names hold letters and underscores only, so \<open>name\<close> stands for itself. The
  greedy \<open>\s*\<close> takes the whole run of whitespace (a shorter run is followed by whitespace,
  never by the colon), \<open>\s\<close> takes one whitespace character, which may be a newline, and the
  greedy \<open>.+\<close> takes every character up to the next newline (a shorter run is followed by a
  character that is no newline): backtracking finds no other match.
\<close>

definition match_here :: "string \<Rightarrow> string \<Rightarrow> string option" where
  "match_here name s =
     (if take (length name) s = name then
        (case dropWhile py_isspace (drop (length name) s) of
           [] \<Rightarrow> None
         | c # r \<Rightarrow>
            if c = CHR '':'' then
              (case r of
                 [] \<Rightarrow> None
               | w # t \<Rightarrow>
                  if py_isspace w then
                    (let g = takeWhile (\<lambda>x. x \<noteq> NL) t;
                         rest = dropWhile (\<lambda>x. x \<noteq> NL) t
                     in if g \<noteq> [] \<and> rest \<noteq> [] then Some g else None)
                  else None)
            else None)
      else None)"

text \<open>\<open>re.search\<close>: the match at the leftmost position that has one.\<close>

fun re_search :: "string \<Rightarrow> string \<Rightarrow> string option" where
  "re_search name [] = match_here name []"
| "re_search name (c # cs) =
     (case match_here name (c # cs) of
        Some g \<Rightarrow> Some g
      | None \<Rightarrow> re_search name cs)"

record pref =
  pref_name :: string
  pref_val :: string

text \<open>The loop of \<open>resolve_preferences\<close> over the field names, \<open>parsed\<close> being \<open>parsed_prefs\<close>.\<close>

fun resolve_loop :: "string list \<Rightarrow> string \<Rightarrow> pref list \<Rightarrow> py_exn + pref list" where
  "resolve_loop [] raw_prefs parsed = Inr parsed"
| "resolve_loop (p # ps) raw_prefs parsed =
     (case re_search p raw_prefs of
        None \<Rightarrow> resolve_loop ps raw_prefs parsed
      | Some g \<Rightarrow>
         (let tmp_value = py_rstrip (py_strip (py_remove (CHR ''}'') (py_remove (CHR ''{'') g)))
          in if py_isdigit tmp_value then
               (case py_int tmp_value of
                  Inl e \<Rightarrow> Inl e
                | Inr n \<Rightarrow>
                   resolve_loop ps raw_prefs
                     (parsed @ [\<lparr>pref_name = p, pref_val = py_hex n\<rparr>]))
             else resolve_loop ps raw_prefs (parsed @ [\<lparr>pref_name = p, pref_val = tmp_value\<rparr>])))"

text \<open>
  \<open>get_prefs_list.get(event)()\<close> calls \<open>None\<close> when the event has no entry, which raises
  \<open>TypeError\<close>.
\<close>

definition resolve_preferences :: "string \<Rightarrow> string \<Rightarrow> py_exn + pref list" where
  "resolve_preferences raw_prefs event =
     (case get_prefs_list event of
        None \<Rightarrow> Inl TypeError
      | Some prefs \<Rightarrow> resolve_loop prefs raw_prefs [])"

section \<open>The PowerShell client (pwsh\_client.py)\<close>

record route =
  exchange :: string
  routing_key :: "string option"
  exchange_type :: string
  auto_ack :: bool
  queue_name :: "string option"

record powershell_config =
  username :: string
  key_path :: string
  program :: string
  route_publish :: "route list option"

record pwsh_client =
  cmd :: "string list"
  key :: string
  client_username :: string

text \<open>\<open>PwshClient(config)\<close>, the constructor.\<close>

definition PwshClient :: "powershell_config \<Rightarrow> pwsh_client" where
  "PwshClient config =
     \<lparr>cmd = [program config, ''-command''], key = key_path config,
      client_username = username config\<rparr>"

definition R_NEW_MP_SESSION :: "string \<Rightarrow> string \<Rightarrow> string" where
  "R_NEW_MP_SESSION user_host k =
     [NL] @ ''    $session = New-PSSession -HostName '' @ user_host @ '' -KeyFilePath '' @ k
       @ [NL]"

definition R_INVOKE_COMMAND :: "string \<Rightarrow> string" where
  "R_INVOKE_COMMAND command =
     [NL] @ ''    Invoke-Command -Session $session -ScriptBlock {'' @ command @ ''}'' @ [NL]"

text \<open>
  The preferences are the validated dictionary in the order of its items, each value as
  \<open>format\<close> writes it.
\<close>

definition create_script ::
  "pwsh_client \<Rightarrow> string \<Rightarrow> string \<Rightarrow> (string \<times> string) list \<Rightarrow> string" where
  "create_script self hostname command prefs =
     (let command' =
            foldl (\<lambda>c (p_key, p_value). c @ '' -'' @ p_key @ '' '' @ p_value) command prefs
      in R_NEW_MP_SESSION (client_username self @ ''@'' @ hostname) (key self) @ [NL]
           @ R_INVOKE_COMMAND command')"

text \<open>
  \<open>run\<close> appends the script to \<open>self.cmd\<close> and starts the subprocess on the whole list.
  The subprocess, the decoding of its output and \<open>clean_output\<close> are the parameter
  \<open>run_process\<close>: from the argument list to the cleaned \<open>(out, err)\<close>, or the exception
  the subprocess raised. The result is the client after the call, the argument list the
  subprocess got, and that outcome.
\<close>

definition run ::
  "(string list \<Rightarrow> py_exn + string \<times> string) \<Rightarrow> pwsh_client \<Rightarrow> string
     \<Rightarrow> pwsh_client \<times> string list \<times> (py_exn + string \<times> string)" where
  "run run_process self script =
     (let self' = self\<lparr>cmd := cmd self @ [script]\<rparr>
      in (self', cmd self', run_process (cmd self')))"

definition invoke_command ::
  "(string list \<Rightarrow> py_exn + string \<times> string) \<Rightarrow> pwsh_client \<Rightarrow> string \<Rightarrow> string
     \<Rightarrow> (string \<times> string) list
     \<Rightarrow> pwsh_client \<times> string list \<times> (py_exn + string \<times> string)" where
  "invoke_command run_process self hostname command prefs =
     run run_process self (create_script self hostname command prefs)"

section \<open>The dispatch handler (pwsh\_handler.py)\<close>

definition ERROR_CAT :: string where
  "ERROR_CAT = ''__PowerShell error''"

definition ERROR_MSG :: "string \<Rightarrow> string" where
  "ERROR_MSG x = ''Invoke PowerShell command error. '' @ x"

record body_model =
  hostnames :: "string list"
  task_id :: int
  event :: string
  preferences :: "(string \<times> string) list"

text \<open>
  What \<open>json.loads\<close> and the reading of the four fields give for a message body: a field
  is \<open>None\<close> when the object lacks it or its value has the wrong type.
\<close>

record body_kwargs =
  kw_hostnames :: "string list option"
  kw_task_id :: "int option"
  kw_event :: "string option"
  kw_preferences :: "(string \<times> string) list option"

text \<open>\<open>BodyModel(**kwargs)\<close> with the validator \<open>_event_valid\<close>.\<close>

definition BodyModel :: "body_kwargs \<Rightarrow> py_exn + body_model" where
  "BodyModel kw =
     (case (kw_hostnames kw, kw_task_id kw, kw_event kw) of
        (Some hs, Some t, Some ev) \<Rightarrow>
          if ev \<notin> set COMMANDS_IN_USE then Inl ValidationError
          else Inr \<lparr>hostnames = hs, task_id = t, event = ev,
                    preferences = (case kw_preferences kw of None \<Rightarrow> [] | Some p \<Rightarrow> p)\<rparr>
      | _ \<Rightarrow> Inl ValidationError)"

datatype message =
    TaskIdMsg int
  | ErrorMsg string string string
  | PrefsMsg string "pref list"

record destination =
  d_routing_key :: "string option"
  d_exchange :: string
  d_exchange_type :: string

text \<open>
  The collaborators of the handler: the JSON decoder, the validation of the preferences
  by the event's model (\<open>get_model(event)(**preferences).dict(...)\<close>), the subprocess, and
  the injected \<open>publisher\<close>, which returns (\<open>None\<close>) or raises.
\<close>

record handler_env =
  decode_fields :: "string \<Rightarrow> py_exn + body_kwargs"
  validate_prefs :: "string \<Rightarrow> (string \<times> string) list \<Rightarrow> py_exn + (string \<times> string) list"
  run_process :: "string list \<Rightarrow> py_exn + string \<times> string"
  publisher :: "destination \<Rightarrow> message \<Rightarrow> py_exn option"

text \<open>
  \<open>get_body\<close> returns the decoded body, or logs and returns \<open>None\<close>; the second component
  is what it logged.
\<close>

definition get_body :: "handler_env \<Rightarrow> string \<Rightarrow> body_model option \<times> string list" where
  "get_body env raw_body =
     (case decode_fields env raw_body of
        Inl exception \<Rightarrow> (None, [''Error: could not load json body. '' @ exn_str exception])
      | Inr kw \<Rightarrow>
         (case BodyModel kw of
            Inl exception \<Rightarrow> (None, [''Error: could not load json body. '' @ exn_str exception])
          | Inr body \<Rightarrow> (Some body, [])))"

text \<open>\<open>self.config.route_publish[i]\<close>.\<close>

definition route_at :: "powershell_config \<Rightarrow> nat \<Rightarrow> py_exn + route" where
  "route_at config i =
     (case route_publish config of
        None \<Rightarrow> Inl (Raised ''TypeError'' ''NoneType object is not subscriptable'')
      | Some routes \<Rightarrow> if i < length routes then Inr (routes ! i) else Inl IndexError)"

text \<open>\<open>_check_routes\<close>, which \<open>prepare_handler\<close> runs before the handler is used.\<close>

definition check_routes :: "powershell_config \<Rightarrow> py_exn option" where
  "check_routes config =
     (case route_publish config of
        None \<Rightarrow> Some (Raised ''TypeError'' ''object of type NoneType has no len()'')
      | Some routes \<Rightarrow>
          if length routes \<noteq> 4 then Some (Raised ''ValueError'' ''There are not all routes'')
          else None)"

text \<open>
  \<open>doing_publish\<close>: the outcome of the publisher and the one call made to it, as the pair
  of destination and body.
\<close>

definition destination_of :: "route \<Rightarrow> destination" where
  "destination_of r =
     \<lparr>d_routing_key = routing_key r, d_exchange = exchange r,
      d_exchange_type = exchange_type r\<rparr>"

definition doing_publish ::
  "handler_env \<Rightarrow> message \<Rightarrow> route
     \<Rightarrow> py_exn option \<times> (destination \<times> message) list" where
  "doing_publish env msg r =
     (let dest = destination_of r
      in (publisher env dest msg, [(dest, msg)]))"

text \<open>
  \<open>await self.doing_publish(message=msg, route=self.config.route_publish[i])\<close>: the
  subscript may raise before anything is published.
\<close>

definition publish_to ::
  "handler_env \<Rightarrow> powershell_config \<Rightarrow> nat \<Rightarrow> message
     \<Rightarrow> py_exn option \<times> (destination \<times> message) list" where
  "publish_to env config i msg =
     (case route_at config i of
        Inl e \<Rightarrow> (Some e, [])
      | Inr r \<Rightarrow> doing_publish env msg r)"

text \<open>
  How a task ended (\<open>None\<close>: it returned; \<open>Some e\<close>: it raised \<open>e\<close>), the calls it made to
  the publisher in order, the argument lists of the subprocesses it started, and what it
  logged.
\<close>

record task_result =
  outcome :: "py_exn option"
  published :: "(destination \<times> message) list"
  argv :: "string list list"
  logged :: "string list"

text \<open>The \<open>try\<close> block of \<open>process_invoking_command\<close>.\<close>

definition invoke_try ::
  "handler_env \<Rightarrow> pwsh_client \<Rightarrow> body_model \<Rightarrow> string
     \<Rightarrow> string list list \<times> (py_exn + string \<times> string)" where
  "invoke_try env client decrypted_body hostname =
     (case validate_prefs env (event decrypted_body) (preferences decrypted_body) of
        Inl e \<Rightarrow> ([], Inl e)
      | Inr prefs \<Rightarrow>
          (case invoke_command (run_process env) client hostname (event decrypted_body) prefs of
             (client', args, r) \<Rightarrow> ([args], r)))"

definition process_invoking_command ::
  "handler_env \<Rightarrow> powershell_config \<Rightarrow> pwsh_client \<Rightarrow> body_model \<Rightarrow> string
     \<Rightarrow> task_result" where
  "process_invoking_command env config client decrypted_body hostname =
     (case invoke_try env client decrypted_body hostname of
        (args, Inl exception) \<Rightarrow>
          (case publish_to env config 0
                  (ErrorMsg hostname (ERROR_MSG (exn_str exception)) ERROR_CAT) of
             (None, tr) \<Rightarrow>
               \<lparr>outcome = Some exception, published = tr, argv = args,
                logged = [''Error: invoke PowerShell command. Body: '' @ exn_str exception]\<rparr>
           | (Some e, tr) \<Rightarrow>
               \<lparr>outcome = Some e, published = tr, argv = args,
                logged = [''Error: invoke PowerShell command. Body: '' @ exn_str exception]\<rparr>)
      | (args, Inr (out, err)) \<Rightarrow>
          (case (if out \<noteq> [] then
                   (case resolve_preferences out (event decrypted_body) of
                      Inl e \<Rightarrow> (Some e, [])
                    | Inr prefs \<Rightarrow>
                        if event decrypted_body = ''Get-MpPreference''
                        then publish_to env config 2 (PrefsMsg hostname prefs)
                        else if event decrypted_body = ''Get-MpComputerStatus''
                        then publish_to env config 3 (PrefsMsg hostname prefs)
                        else (None, []))
                 else (None, [])) of
             (Some e, tr) \<Rightarrow> \<lparr>outcome = Some e, published = tr, argv = args, logged = []\<rparr>
           | (None, tr) \<Rightarrow>
               if err \<noteq> [] \<and> length err > 1 then
                 (case publish_to env config 0 (ErrorMsg hostname (ERROR_MSG err) ERROR_CAT) of
                    (r, tr') \<Rightarrow> \<lparr>outcome = r, published = tr @ tr', argv = args, logged = []\<rparr>)
               else \<lparr>outcome = None, published = tr, argv = args, logged = []\<rparr>))"

text \<open>
  What \<open>call_handler\<close> did itself, and the tasks it created with \<open>create_task\<close>: each is
  the client made for it, the body and the hostname. Reading \<open>task_id\<close> of the \<open>None\<close> that
  \<open>get_body\<close> returned on a failure raises \<open>AttributeError\<close>.
\<close>

record handler_result =
  h_outcome :: "py_exn option"
  h_published :: "(destination \<times> message) list"
  tasks :: "(pwsh_client \<times> body_model \<times> string) list"
  h_logged :: "string list"

definition call_handler :: "handler_env \<Rightarrow> powershell_config \<Rightarrow> string \<Rightarrow> handler_result" where
  "call_handler env config raw_body =
     (case get_body env raw_body of
        (None, lg) \<Rightarrow>
          \<lparr>h_outcome = Some AttributeError, h_published = [], tasks = [], h_logged = lg\<rparr>
      | (Some decrypted_body, lg) \<Rightarrow>
          (case publish_to env config 1 (TaskIdMsg (task_id decrypted_body)) of
             (Some e, tr) \<Rightarrow> \<lparr>h_outcome = Some e, h_published = tr, tasks = [], h_logged = lg\<rparr>
           | (None, tr) \<Rightarrow>
               \<lparr>h_outcome = None, h_published = tr,
                tasks = map (\<lambda>hostname. (PwshClient config, decrypted_body, hostname))
                          (hostnames decrypted_body),
                h_logged = lg\<rparr>))"

text \<open>The tasks run once \<open>call_handler\<close> has returned; each run is one task result.\<close>

definition task_runs :: "handler_env \<Rightarrow> powershell_config \<Rightarrow> handler_result \<Rightarrow> task_result list" where
  "task_runs env config res =
     map (\<lambda>(client, decrypted_body, hostname).
            process_invoking_command env config client decrypted_body hostname) (tasks res)"

text \<open>
  The tasks share one event loop and interleave at their suspension points: the calls
  they make to the publisher come in any order that keeps each task's own order.
\<close>

fun schedules :: "'a list list \<Rightarrow> 'a list set" where
  "schedules [] = {[]}"
| "schedules (t # ts) = (\<Union>s \<in> schedules ts. shuffles t s)"

text \<open>Every order in which one inbound message can reach the publisher.\<close>

definition job_traces ::
  "handler_env \<Rightarrow> powershell_config \<Rightarrow> string \<Rightarrow> (destination \<times> message) list set" where
  "job_traces env config raw_body =
     (let res = call_handler env config raw_body
      in (\<lambda>s. h_published res @ s) ` schedules (map published (task_runs env config res)))"

text \<open>The destination of the \<open>i\<close>-th publish route of a configuration that has it.\<close>

definition publish_route :: "powershell_config \<Rightarrow> nat \<Rightarrow> destination" where
  "publish_route config i = destination_of (the (route_publish config) ! i)"

definition is_receipt :: "destination \<times> message \<Rightarrow> bool" where
  "is_receipt dm = (case snd dm of TaskIdMsg _ \<Rightarrow> True | _ \<Rightarrow> False)"

definition is_error_notification :: "destination \<times> message \<Rightarrow> bool" where
  "is_error_notification dm = (case snd dm of ErrorMsg _ _ _ \<Rightarrow> True | _ \<Rightarrow> False)"

definition is_prefs_result :: "destination \<times> message \<Rightarrow> bool" where
  "is_prefs_result dm = (case snd dm of PrefsMsg _ _ \<Rightarrow> True | _ \<Rightarrow> False)"

section \<open>The broker client (rabbit\_broker\_async.py)\<close>


text \<open>
  The client's fields: \<open>loop\<close>, \<open>connection\<close> and \<open>channel\<close> say whether the attribute
  holds an object, the two flags are the source's. \<open>attempts\<close> counts the calls of
  \<open>connect_robust\<close> so far, \<open>slept\<close> adds up the seconds spent in \<open>asyncio.sleep\<close>, and
  \<open>broker_log\<close> collects the lines written to the logger.
\<close>

record rabbit_client =
  loop :: bool
  connection :: bool
  channel :: bool
  has_connection :: bool
  has_channel :: bool
  attempts :: nat
  slept :: nat
  broker_log :: "string list"










section \<open>The broker (rabbit\_broker\_async.py)\<close>







section \<open>Concrete inputs\<close>

definition example_routes :: "route list" where
  "example_routes =
     [\<lparr>exchange = ''events'', routing_key = Some ''event.common'', exchange_type = ''topic'',
       auto_ack = True, queue_name = None\<rparr>,
      \<lparr>exchange = ''events'', routing_key = Some ''event.notify'', exchange_type = ''topic'',
       auto_ack = True, queue_name = None\<rparr>,
      \<lparr>exchange = ''settings'', routing_key = Some ''settings_changed'',
       exchange_type = ''direct'', auto_ack = True, queue_name = None\<rparr>,
      \<lparr>exchange = ''monitoring'', routing_key = Some ''mon'', exchange_type = ''fanout'',
       auto_ack = True, queue_name = None\<rparr>]"

definition example_config :: powershell_config where
  "example_config =
     \<lparr>username = ''admin'', key_path = ''/keys/id_rsa'', program = ''pwsh'',
      route_publish = Some example_routes\<rparr>"

text \<open>
  A decoder that knows three message bodies: a status job for two hosts, a scan job for
  one host, and a job whose event is not a supported command; anything else is no JSON.
\<close>

definition example_decode :: "string \<Rightarrow> py_exn + body_kwargs" where
  "example_decode raw =
     (if raw = ''status job'' then
        Inr \<lparr>kw_hostnames = Some [''h1'', ''h2''], kw_task_id = Some 42,
             kw_event = Some ''Get-MpComputerStatus'', kw_preferences = Some []\<rparr>
      else if raw = ''scan job'' then
        Inr \<lparr>kw_hostnames = Some [''h1''], kw_task_id = Some 7,
             kw_event = Some ''Start-MpScan'', kw_preferences = None\<rparr>
      else if raw = ''process job'' then
        Inr \<lparr>kw_hostnames = Some [''h1''], kw_task_id = Some 8,
             kw_event = Some ''Get-Process'', kw_preferences = None\<rparr>
      else Inl (Raised ''JSONDecodeError'' ''Expecting value''))"

text \<open>
  An environment where every preference set is valid, every subprocess prints one status
  line and an error text, and the publisher always returns.
\<close>

definition example_env :: handler_env where
  "example_env =
     \<lparr>decode_fields = example_decode,
      validate_prefs = (\<lambda>ev prefs. Inr prefs),
      run_process = (\<lambda>args. Inr (''AntivirusEnabled : True'' @ [NL], ''Access is denied'')),
      publisher = (\<lambda>dest msg. None)\<rparr>"

definition connection_refused :: py_exn where
  "connection_refused = Raised ''OSError'' ''connection refused''"






section \<open>The line match of the parser\<close>

lemma colon_not_space: "\<not> py_isspace (CHR '':'')"
  by (simp add: py_isspace_def)

lemma NL_isspace: "py_isspace NL"
  by (simp add: py_isspace_def NL_def)


lemma match_here_Some_iff:
  "match_here name s = Some g \<longleftrightarrow>
     (\<exists>ws w t. s = name @ ws @ CHR '':'' # w # g @ NL # t \<and> list_all py_isspace ws \<and>
        py_isspace w \<and> g \<noteq> [] \<and> NL \<notin> set g)"
  (is "?L = ?R")
proof
  assume L: ?L
  then have tk: "take (length name) s = name"
    by (auto simp: match_here_def split: if_splits)
  define r0 where "r0 = drop (length name) s"
  have s: "s = name @ r0"
    using tk append_take_drop_id [of "length name" s] by (simp add: r0_def)
  from L tk obtain r where d: "dropWhile py_isspace r0 = CHR '':'' # r"
    by (auto simp: match_here_def r0_def split: if_splits list.splits)
  from L tk d obtain w t where r: "r = w # t" and w: "py_isspace w"
    by (auto simp: match_here_def r0_def split: if_splits list.splits)
  from L tk d r w have g: "g = takeWhile (\<lambda>x. x \<noteq> NL) t" and ne: "g \<noteq> []"
    and rest: "dropWhile (\<lambda>x. x \<noteq> NL) t \<noteq> []"
    by (auto simp: match_here_def r0_def Let_def split: if_splits list.splits)
  from rest obtain t' where t': "dropWhile (\<lambda>x. x \<noteq> NL) t = NL # t'"
    using hd_dropWhile [of "\<lambda>x. x \<noteq> NL" t] by (cases "dropWhile (\<lambda>x. x \<noteq> NL) t") auto
  have t: "t = g @ NL # t'"
    using takeWhile_dropWhile_id [of "\<lambda>x. x \<noteq> NL" t] by (simp add: g t')
  have r0: "r0 = takeWhile py_isspace r0 @ CHR '':'' # r"
    using takeWhile_dropWhile_id [of py_isspace r0] by (simp add: d)
  have ws: "list_all py_isspace (takeWhile py_isspace r0)"
    by (auto simp: list_all_iff dest: set_takeWhileD)
  have ng: "NL \<notin> set g"
    by (auto simp: g dest: set_takeWhileD)
  have "s = name @ takeWhile py_isspace r0 @ CHR '':'' # w # g @ NL # t'"
    using s r0 r t by simp
  with ws w ne ng show ?R by blast
next
  assume ?R
  then obtain ws w t where s: "s = name @ ws @ CHR '':'' # w # g @ NL # t"
    and ws: "list_all py_isspace ws" and w: "py_isspace w" and ne: "g \<noteq> []"
    and ng: "NL \<notin> set g"
    by blast
  have d: "dropWhile py_isspace (ws @ CHR '':'' # w # g @ NL # t) = CHR '':'' # w # g @ NL # t"
    using ws colon_not_space by (simp add: dropWhile_append list_all_iff)
  have tw: "takeWhile (\<lambda>x. x \<noteq> NL) (g @ NL # t) = g"
    using ng by (simp add: takeWhile_append)
  have dw: "dropWhile (\<lambda>x. x \<noteq> NL) (g @ NL # t) = NL # t"
    using ng by (simp add: dropWhile_append)
  show ?L
    using w ne by (simp add: match_here_def s d tw dw)
qed




lemma match_here_needs_newline: "NL \<notin> set s \<Longrightarrow> match_here name s = None"
proof -
  assume a: "NL \<notin> set s"
  have "match_here name s \<noteq> Some g" for g
    using a unfolding match_here_Some_iff by auto
  then show ?thesis by (cases "match_here name s") auto
qed










lemma re_search_empty: "re_search name [] = None"
  by (simp add: match_here_needs_newline)

text \<open>
  One round of the loop, by the kind of the value once braces and surrounding whitespace
  are gone: decimal digits are written in hexadecimal, a value that \<open>isdigit\<close> refuses
  is kept as it is, and digits that are not all decimal make \<open>int\<close> raise. The last
  lemma is the line \<open>ScanParameters : 1\<close> of the preferences output.
\<close>

lemma to_camel_examples:
  "to_camel ''scan_parameters'' = ''ScanParameters''"
  "to_camel ''scan_avg_c_p_u_load_factor'' = ''ScanAvgCPULoadFactor''"
  "to_camel ''threat_i_d_default_action__ids'' = ''ThreatIDDefaultAction_Ids''"
  by code_simp+

lemma scan_parameters_is_a_property: "''ScanParameters'' \<in> set get_mp_prefs_list"
  by code_simp

lemma resolve_loop_absent:
  "re_search p raw = None \<Longrightarrow> resolve_loop (p # ps) raw acc = resolve_loop ps raw acc"
  by simp

lemma resolve_loop_decimal:
  assumes "re_search p raw = Some g"
    and "v = py_rstrip (py_strip (py_remove (CHR ''}'') (py_remove (CHR ''{'') g)))"
    and "v \<noteq> []" and "list_all is_decimal v"
  shows "resolve_loop (p # ps) raw acc =
     resolve_loop ps raw (acc @ [\<lparr>pref_name = p, pref_val = py_hex (decimal_value v)\<rparr>])"
proof -
  have "list_all py_isdigit_char v"
    using assms(4) by (auto simp: list_all_iff is_decimal_def py_isdigit_char_def Let_def)
  with assms show ?thesis
    by (simp add: py_isdigit_def py_int_def Let_def)
qed

lemma resolve_loop_text:
  assumes "re_search p raw = Some g"
    and "v = py_rstrip (py_strip (py_remove (CHR ''}'') (py_remove (CHR ''{'') g)))"
    and "\<not> py_isdigit v"
  shows "resolve_loop (p # ps) raw acc =
     resolve_loop ps raw (acc @ [\<lparr>pref_name = p, pref_val = v\<rparr>])"
  using assms by (simp add: Let_def)

lemma resolve_loop_superscript:
  assumes "re_search p raw = Some g"
    and "v = py_rstrip (py_strip (py_remove (CHR ''}'') (py_remove (CHR ''{'') g)))"
    and "py_isdigit v" and "\<not> list_all is_decimal v"
  shows "resolve_loop (p # ps) raw acc = Inl ValueError"
  using assms by (simp add: Let_def py_int_def)

lemma scan_parameters_scenario:
  "resolve_preferences (''ScanParameters : 1'' @ [NL]) ''Get-MpPreference'' =
     Inr [\<lparr>pref_name = ''ScanParameters'', pref_val = ''0x1''\<rparr>]"
  by code_simp




text \<open>
  C2. The claim fails on the code. \<open>str.isdigit\<close> accepts the superscript two, which is no
  decimal digit and which \<open>int\<close> refuses: the parser raises \<open>ValueError\<close> at the field
  \<open>AntivirusSignatureVersion\<close>, so the value is not passed through unchanged, and the
  decimal value \<open>1\<close> of \<open>AntivirusEnabled\<close> in the same text is never emitted as \<open>0x1\<close>.
\<close>

theorem resolve_preferences_superscript_digit:
  "resolve_preferences
     (''AntivirusSignatureVersion : '' @ [CHR 0xB2, NL] @ ''AntivirusEnabled : 1'' @ [NL])
     ''Get-MpComputerStatus'' = Inl ValueError"
  by code_simp

text \<open>
  C3. The claim fails on the code. For the three supported events with no entry in
  \<open>get_prefs_list\<close> the parser calls \<open>None\<close> and raises \<open>TypeError\<close>, whatever the text.
\<close>

theorem resolve_preferences_raises_without_field_list:
  "resolve_preferences raw ''Set-MpPreference'' = Inl TypeError
   \<and> resolve_preferences raw ''Start-MpScan'' = Inl TypeError
   \<and> resolve_preferences raw ''Update-MpSignature'' = Inl TypeError"
  by (simp add: resolve_preferences_def get_prefs_list_def)

section \<open>The dispatch handler: what a task publishes\<close>

lemma publish_to_shape:
  "(\<exists>e. publish_to env config i m = (Some e, [])) \<or>
   (\<exists>d. publish_to env config i m = (publisher env d m, [(d, m)]))"
  by (auto simp: publish_to_def doing_publish_def Let_def split: sum.splits)

lemma publish_to_checked:
  "check_routes config = None \<Longrightarrow> i < 4 \<Longrightarrow>
   publish_to env config i m = (publisher env (publish_route config i) m, [(publish_route config i, m)])"
  by (auto simp: publish_to_def doing_publish_def Let_def check_routes_def route_at_def
        publish_route_def split: option.splits if_splits)


lemma publish_to_trace:
  "snd (publish_to env config i m) = [] \<or> (\<exists>d. snd (publish_to env config i m) = [(d, m)])"
  using publish_to_shape [of env config i m] by auto

lemma task_trace_shape:
  "\<exists>a b. published (process_invoking_command env config client body hostname) = a @ b
     \<and> (a = [] \<or> (\<exists>d ps out err args. a = [(d, PrefsMsg hostname ps)]
            \<and> invoke_try env client body hostname = (args, Inr (out, err)) \<and> out \<noteq> []))
     \<and> (b = [] \<or> (\<exists>d t. b = [(d, ErrorMsg hostname t ERROR_CAT)]))"
proof (cases "invoke_try env client body hostname")
  case (Pair args r)
  show ?thesis
  proof (cases r)
    case (Inl ex)
    from publish_to_trace [of env config 0 "ErrorMsg hostname (ERROR_MSG (exn_str ex)) ERROR_CAT"]
    show ?thesis
      by (auto simp: process_invoking_command_def Pair Inl split: prod.splits option.splits
            intro!: exI [of _ "[]"])
  next
    case (Inr oe)
    obtain out err where oe: "oe = (out, err)" by (cases oe)
    define first where "first =
      (if out \<noteq> [] then
         (case resolve_preferences out (event body) of
            Inl e \<Rightarrow> (Some e, [])
          | Inr prefs \<Rightarrow>
              if event body = ''Get-MpPreference''
              then publish_to env config 2 (PrefsMsg hostname prefs)
              else if event body = ''Get-MpComputerStatus''
              then publish_to env config 3 (PrefsMsg hostname prefs)
              else (None, []))
       else (None, []))"
    have f: "snd first = [] \<or> (\<exists>d ps. snd first = [(d, PrefsMsg hostname ps)] \<and> out \<noteq> [])"
      using publish_to_trace [of env config 2] publish_to_trace [of env config 3]
      by (auto simp: first_def split: sum.splits)
    have p: "process_invoking_command env config client body hostname =
       (case first of
          (Some e, tr) \<Rightarrow> \<lparr>outcome = Some e, published = tr, argv = args, logged = []\<rparr>
        | (None, tr) \<Rightarrow>
            if err \<noteq> [] \<and> length err > 1 then
              (case publish_to env config 0 (ErrorMsg hostname (ERROR_MSG err) ERROR_CAT) of
                 (r, tr') \<Rightarrow> \<lparr>outcome = r, published = tr @ tr', argv = args, logged = []\<rparr>)
            else \<lparr>outcome = None, published = tr, argv = args, logged = []\<rparr>)"
      by (simp add: process_invoking_command_def Pair Inr oe first_def)
    obtain fo ft where fst: "first = (fo, ft)" by (cases first)
    from f fst have ft: "ft = [] \<or> (\<exists>d ps. ft = [(d, PrefsMsg hostname ps)] \<and> out \<noteq> [])" by simp
    have a: "ft = [] \<or> (\<exists>d ps out err args. ft = [(d, PrefsMsg hostname ps)]
            \<and> invoke_try env client body hostname = (args, Inr (out, err)) \<and> out \<noteq> [])"
      using ft Pair Inr oe by auto
    show ?thesis
    proof (cases fo)
      case (Some e)
      then have "published (process_invoking_command env config client body hostname) = ft @ []"
        by (simp add: p fst)
      with a show ?thesis by blast
    next
      case None
      show ?thesis
      proof (cases "err \<noteq> [] \<and> length err > 1")
        case True
        obtain r tr' where pt: "publish_to env config 0 (ErrorMsg hostname (ERROR_MSG err) ERROR_CAT) = (r, tr')"
          by (cases "publish_to env config 0 (ErrorMsg hostname (ERROR_MSG err) ERROR_CAT)")
        have b: "tr' = [] \<or> (\<exists>d t. tr' = [(d, ErrorMsg hostname t ERROR_CAT)])"
          using publish_to_trace [of env config 0 "ErrorMsg hostname (ERROR_MSG err) ERROR_CAT"] pt
          by auto
        have "published (process_invoking_command env config client body hostname) = ft @ tr'"
          using True by (simp add: p fst None pt)
        with a b show ?thesis by blast
      next
        case False
        then have "published (process_invoking_command env config client body hostname) = ft @ []"
          by (auto simp: p fst None)
        with a show ?thesis by blast
      qed
    qed
  qed
qed


lemma task_trace_counts:
  "length (published (process_invoking_command env config client body hostname)) \<le> 2
   \<and> length (filter is_prefs_result
         (published (process_invoking_command env config client body hostname))) \<le> 1
   \<and> length (filter is_error_notification
         (published (process_invoking_command env config client body hostname))) \<le> 1
   \<and> \<not> list_ex is_receipt (published (process_invoking_command env config client body hostname))
   \<and> list_all (\<lambda>dm. is_prefs_result dm \<or> is_error_notification dm)
         (published (process_invoking_command env config client body hostname))"
  using task_trace_shape [of env config client body hostname]
  by (auto simp: is_prefs_result_def is_error_notification_def is_receipt_def)

lemma task_prefs_needs_stdout:
  "list_ex is_prefs_result (published (process_invoking_command env config client body hostname))
   \<Longrightarrow> \<exists>args out err. invoke_try env client body hostname = (args, Inr (out, err)) \<and> out \<noteq> []"
  using task_trace_shape [of env config client body hostname]
  by (auto simp: is_prefs_result_def is_error_notification_def)

lemma schedules_length: "s \<in> schedules ts \<Longrightarrow> length s = sum_list (map length ts)"
  by (induction ts arbitrary: s) (auto simp: length_shuffles)

lemma schedules_set: "s \<in> schedules ts \<Longrightarrow> set s = \<Union> (set ` set ts)"
  by (induction ts arbitrary: s) (auto simp: set_shuffles)

lemma sum_list_bounded: "(\<And>x. x \<in> set xs \<Longrightarrow> f x \<le> k) \<Longrightarrow> sum_list (map f xs) \<le> k * length xs"
  by (induction xs) (auto simp: add_le_mono)

section \<open>The dispatch handler: failures\<close>







lemma process_on_exception:
  assumes "check_routes config = None" and "invoke_try env client body hostname = (args, Inl ex)"
  shows "process_invoking_command env config client body hostname =
     \<lparr>outcome = Some (case publisher env (publish_route config 0)
                             (ErrorMsg hostname (ERROR_MSG (exn_str ex)) ERROR_CAT) of
                        None \<Rightarrow> ex | Some e \<Rightarrow> e),
      published = [(publish_route config 0,
                    ErrorMsg hostname (ERROR_MSG (exn_str ex)) ERROR_CAT)],
      argv = args,
      logged = [''Error: invoke PowerShell command. Body: '' @ exn_str ex]\<rparr>"
  using assms
  by (simp add: process_invoking_command_def publish_to_checked split: option.splits)

text \<open>
  C5. When the \<open>try\<close> block of a task raises (the validation of the preferences or the
  runner), the task hands exactly one message to the publisher, the error notification
  with the hostname, the formatted text and the category, on publish route 0; it ends
  with an exception, the runner's own once the publisher has returned; no settings or
  status message is published.
\<close>

theorem runner_exception_is_routed:
  assumes "check_routes config = None"
    and "invoke_try env client body hostname = (args, Inl ex)"
  shows "published (process_invoking_command env config client body hostname) =
       [(publish_route config 0, ErrorMsg hostname (ERROR_MSG (exn_str ex)) ERROR_CAT)]
     \<and> outcome (process_invoking_command env config client body hostname) \<noteq> None
     \<and> (publisher env (publish_route config 0)
           (ErrorMsg hostname (ERROR_MSG (exn_str ex)) ERROR_CAT) = None \<longrightarrow>
         outcome (process_invoking_command env config client body hostname) = Some ex)
     \<and> \<not> list_ex is_prefs_result
           (published (process_invoking_command env config client body hostname))"
  by (simp add: process_on_exception [OF assms] is_prefs_result_def)

theorem runner_exception_is_routed_witness:
  "check_routes example_config = None
   \<and> published (process_invoking_command
        (example_env\<lparr>run_process := \<lambda>args. Inl connection_refused\<rparr>) example_config
        (PwshClient example_config)
        \<lparr>hostnames = [''h1''], task_id = 42, event = ''Get-MpComputerStatus'',
         preferences = []\<rparr> ''h1'') =
      [(\<lparr>d_routing_key = Some ''event.common'', d_exchange = ''events'',
         d_exchange_type = ''topic''\<rparr>,
        ErrorMsg ''h1'' ''Invoke PowerShell command error. connection refused''
          ''__PowerShell error'')]
   \<and> outcome (process_invoking_command
        (example_env\<lparr>run_process := \<lambda>args. Inl connection_refused\<rparr>) example_config
        (PwshClient example_config)
        \<lparr>hostnames = [''h1''], task_id = 42, event = ''Get-MpComputerStatus'',
         preferences = []\<rparr> ''h1'') = Some connection_refused"
proof -
  let ?env = "example_env\<lparr>run_process := \<lambda>args. Inl connection_refused\<rparr>"
  let ?body = "\<lparr>hostnames = [''h1''], task_id = 42, event = ''Get-MpComputerStatus'',
         preferences = []\<rparr>"
  have c: "check_routes example_config = None"
    by (simp add: check_routes_def example_config_def example_routes_def)
  have i: "invoke_try ?env (PwshClient example_config) ?body ''h1'' =
      (fst (invoke_try ?env (PwshClient example_config) ?body ''h1''), Inl connection_refused)"
    by (simp add: invoke_try_def invoke_command_def run_def example_env_def Let_def)
  have p: "publisher ?env d m = None" for d m
    by (simp add: example_env_def)
  have r: "publish_route example_config 0 =
      \<lparr>d_routing_key = Some ''event.common'', d_exchange = ''events'',
         d_exchange_type = ''topic''\<rparr>"
    by (simp add: publish_route_def example_config_def example_routes_def destination_of_def)
  from runner_exception_is_routed [OF c i] c p r
  show ?thesis
    by (simp add: ERROR_MSG_def ERROR_CAT_def connection_refused_def)
qed

section \<open>The dispatch handler: one job\<close>

lemma append_in_shuffles: "xs @ ys \<in> shuffles xs ys"
  by (induction xs) (auto intro: Cons_in_shuffles_leftI)

lemma concat_in_schedules: "concat ts \<in> schedules ts"
  by (induction ts) (auto intro: append_in_shuffles)

lemma call_handler_body:
  assumes "check_routes config = None" and "get_body env raw = (Some body, lg)"
  shows "h_published (call_handler env config raw) = [(publish_route config 1, TaskIdMsg (task_id body))]"
    and "tasks (call_handler env config raw) =
      (if publisher env (publish_route config 1) (TaskIdMsg (task_id body)) = None
       then map (\<lambda>hostname. (PwshClient config, body, hostname)) (hostnames body) else [])"
  using assms by (auto simp: call_handler_def publish_to_checked split: option.splits)


lemma tasks_length:
  "get_body env raw = (Some body, lg) \<Longrightarrow>
   length (tasks (call_handler env config raw)) \<le> length (hostnames body)"
  by (auto simp: call_handler_def split: prod.splits option.splits)

text \<open>
  C1. For a valid job request, in every order in which the calls of one job reach the
  publisher, the first call is the receipt acknowledgment with the task id, on publish
  route 1; no later call is a receipt; every later call is a settings or status result or
  an error notification, and there are at most twice as many as hostnames. Each task
  publishes at most one settings or status result, and only when its standard output is
  not empty, and at most one error notification.
\<close>

theorem receipt_first_then_at_most_two_per_host:
  assumes "check_routes config = None"
    and "get_body env raw = (Some body, lg)"
    and "tr \<in> job_traces env config raw"
  shows "(\<exists>rest. tr = (publish_route config 1, TaskIdMsg (task_id body)) # rest
            \<and> \<not> list_ex is_receipt rest
            \<and> list_all (\<lambda>dm. is_prefs_result dm \<or> is_error_notification dm) rest
            \<and> length rest \<le> 2 * length (hostnames body))
     \<and> length (tasks (call_handler env config raw)) \<le> length (hostnames body)
     \<and> (\<forall>(client, b, h) \<in> set (tasks (call_handler env config raw)).
           length (filter is_prefs_result
             (published (process_invoking_command env config client b h))) \<le> 1
         \<and> length (filter is_error_notification
             (published (process_invoking_command env config client b h))) \<le> 1
         \<and> (list_ex is_prefs_result
              (published (process_invoking_command env config client b h)) \<longrightarrow>
            (\<exists>args out err. invoke_try env client b h = (args, Inr (out, err)) \<and> out \<noteq> [])))"
proof -
  let ?res = "call_handler env config raw"
  let ?runs = "task_runs env config ?res"
  from assms(3) obtain s where s: "s \<in> schedules (map published ?runs)"
    and tr: "tr = h_published ?res @ s"
    by (auto simp: job_traces_def Let_def)
  have hp: "h_published ?res = [(publish_route config 1, TaskIdMsg (task_id body))]"
    by (rule call_handler_body(1) [OF assms(1,2)])
  have run: "\<exists>client b h. r = process_invoking_command env config client b h"
    if "r \<in> set ?runs" for r
    using that by (auto simp: task_runs_def)
  have elems: "\<not> is_receipt dm \<and> (is_prefs_result dm \<or> is_error_notification dm)"
    if "dm \<in> set s" for dm
  proof -
    from that schedules_set [OF s] obtain r where r: "r \<in> set ?runs" and dm: "dm \<in> set (published r)"
      by auto
    from run [OF r] obtain client b h where "r = process_invoking_command env config client b h"
      by blast
    with dm task_trace_counts [of env config client b h] show ?thesis
      by (auto simp: list_ex_iff list_all_iff)
  qed
  have "length s = sum_list (map length (map published ?runs))"
    by (rule schedules_length [OF s])
  also have "\<dots> = sum_list (map (\<lambda>r. length (published r)) ?runs)"
    by (simp add: comp_def)
  also have "\<dots> \<le> 2 * length ?runs"
  proof (rule sum_list_bounded)
    fix r assume "r \<in> set ?runs"
    from run [OF this] obtain client b h where "r = process_invoking_command env config client b h"
      by blast
    with task_trace_counts [of env config client b h] show "length (published r) \<le> 2" by simp
  qed
  also have "\<dots> \<le> 2 * length (hostnames body)"
    using tasks_length [OF assms(2), of config] by (simp add: task_runs_def)
  finally have len: "length s \<le> 2 * length (hostnames body)" .
  have first: "\<exists>rest. tr = (publish_route config 1, TaskIdMsg (task_id body)) # rest
            \<and> \<not> list_ex is_receipt rest
            \<and> list_all (\<lambda>dm. is_prefs_result dm \<or> is_error_notification dm) rest
            \<and> length rest \<le> 2 * length (hostnames body)"
    using elems len by (intro exI [of _ s]) (auto simp: tr hp list_ex_iff list_all_iff)
  have per: "\<forall>(client, b, h) \<in> set (tasks ?res).
           length (filter is_prefs_result
             (published (process_invoking_command env config client b h))) \<le> 1
         \<and> length (filter is_error_notification
             (published (process_invoking_command env config client b h))) \<le> 1
         \<and> (list_ex is_prefs_result
              (published (process_invoking_command env config client b h)) \<longrightarrow>
            (\<exists>args out err. invoke_try env client b h = (args, Inr (out, err)) \<and> out \<noteq> []))"
    using task_trace_counts task_prefs_needs_stdout by blast
  from first tasks_length [OF assms(2), of config] per show ?thesis by blast
qed

theorem receipt_first_then_at_most_two_per_host_witness:
  "check_routes example_config = None
   \<and> h_published (call_handler example_env example_config ''status job'')
        @ concat (map published (task_runs example_env example_config
            (call_handler example_env example_config ''status job'')))
      \<in> job_traces example_env example_config ''status job''
   \<and> (\<exists>rest. h_published (call_handler example_env example_config ''status job'')
        @ concat (map published (task_runs example_env example_config
            (call_handler example_env example_config ''status job'')))
        = (\<lparr>d_routing_key = Some ''event.notify'', d_exchange = ''events'',
             d_exchange_type = ''topic''\<rparr>, TaskIdMsg 42) # rest
        \<and> \<not> list_ex is_receipt rest \<and> length rest \<le> 2 * 2)
   \<and> length (concat (map published (task_runs example_env example_config
            (call_handler example_env example_config ''status job'')))) = 4"
proof -
  let ?body = "\<lparr>hostnames = [''h1'', ''h2''], task_id = 42, event = ''Get-MpComputerStatus'',
         preferences = []\<rparr>"
  let ?tr = "h_published (call_handler example_env example_config ''status job'')
        @ concat (map published (task_runs example_env example_config
            (call_handler example_env example_config ''status job'')))"
  have c: "check_routes example_config = None"
    by (simp add: check_routes_def example_config_def example_routes_def)
  have g: "get_body example_env ''status job'' = (Some ?body, [])"
    by (simp add: get_body_def example_env_def example_decode_def BodyModel_def
          COMMANDS_IN_USE_def)
  have m: "?tr \<in> job_traces example_env example_config ''status job''"
    by (simp add: job_traces_def Let_def concat_in_schedules)
  have r: "publish_route example_config 1 =
      \<lparr>d_routing_key = Some ''event.notify'', d_exchange = ''events'',
         d_exchange_type = ''topic''\<rparr>"
    by (simp add: publish_route_def example_config_def example_routes_def destination_of_def)
  have l: "length (concat (map published (task_runs example_env example_config
            (call_handler example_env example_config ''status job'')))) = 4"
    by code_simp
  from receipt_first_then_at_most_two_per_host [OF c g m] r
  have "\<exists>rest. ?tr = (\<lparr>d_routing_key = Some ''event.notify'', d_exchange = ''events'',
             d_exchange_type = ''topic''\<rparr>, TaskIdMsg 42) # rest
        \<and> \<not> list_ex is_receipt rest \<and> length rest \<le> 2 * 2"
    by auto
  with c m l show ?thesis by blast
qed

text \<open>
  C6. The claim fails on the code. The runner returns for a \<open>Start-MpScan\<close> job with a
  non-empty standard output and an error text of sixteen characters. The task calls the
  parser, which raises \<open>TypeError\<close> for that event, before it looks at the error text:
  the task ends with the exception and publishes nothing.
\<close>

theorem stderr_lost_when_parser_raises:
  "snd (invoke_try example_env (PwshClient example_config)
         \<lparr>hostnames = [''h1''], task_id = 7, event = ''Start-MpScan'', preferences = []\<rparr>
         ''h1'') = Inr (''AntivirusEnabled : True'' @ [NL], ''Access is denied'')
   \<and> outcome (process_invoking_command example_env example_config (PwshClient example_config)
         \<lparr>hostnames = [''h1''], task_id = 7, event = ''Start-MpScan'', preferences = []\<rparr>
         ''h1'') = Some TypeError
   \<and> published (process_invoking_command example_env example_config
         (PwshClient example_config)
         \<lparr>hostnames = [''h1''], task_id = 7, event = ''Start-MpScan'', preferences = []\<rparr>
         ''h1'') = []"
  by (simp add: process_invoking_command_def invoke_try_def invoke_command_def run_def
        example_env_def Let_def resolve_preferences_def get_prefs_list_def NL_def)




section \<open>The broker: faults\<close>




















end
